theory Spec2Isabelle
  imports Main "HOL-Library.Word"
begin

section \<open>CastQuotes: the quote pipeline, the cast dispatcher and the admin panel of App.tsx\<close>

subsection \<open>JavaScript strings and values\<close>

text \<open>
  A JavaScript string is a sequence of UTF-16 code units; \<open>.length\<close> counts code units and
  \<open>===\<close> on strings compares the sequences. \<open>js\<close> embeds an ASCII literal.
\<close>

type_synonym jsstring = "16 word list"

definition js :: "string \<Rightarrow> jsstring" where
  "js s = map (\<lambda>c. of_nat (of_char c)) s"

text \<open>
  The values the program handles at run time. The TypeScript annotations say \<open>string[]\<close>,
  but what \<open>JSON.parse\<close> and \<open>res.json()\<close> deliver is not checked against them, so a
  quote list is a list of arbitrary values. The payload of a number is never inspected by
  the program and is kept as an integer.
\<close>

datatype jsval =
    JUndefined
  | JNull
  | JBool bool
  | JNum int
  | JStr jsstring
  | JArr "jsval list"
  | JObj "(jsstring \<times> jsval) list"

text \<open>JavaScript truthiness, as used by \<open>if (!quote)\<close>.\<close>

fun truthy :: "jsval \<Rightarrow> bool" where
  "truthy JUndefined = False"
| "truthy JNull = False"
| "truthy (JBool b) = b"
| "truthy (JNum n) = (n \<noteq> 0)"
| "truthy (JStr s) = (s \<noteq> [])"
| "truthy (JArr xs) = True"
| "truthy (JObj kvs) = True"

text \<open>
  \<open>String.prototype.trim\<close> removes WhiteSpace and LineTerminator code units from both ends:
  TAB, LF, VT, FF, CR, SP, NBSP, U+1680, U+2000..U+200A, LS, PS, U+202F, U+205F, U+3000, BOM.
\<close>

definition is_js_space :: "16 word \<Rightarrow> bool" where
  "is_js_space c \<longleftrightarrow>
     c \<in> set [0x0009, 0x000A, 0x000B, 0x000C, 0x000D, 0x0020, 0x00A0, 0x1680,
              0x2000, 0x2001, 0x2002, 0x2003, 0x2004, 0x2005, 0x2006, 0x2007,
              0x2008, 0x2009, 0x200A, 0x2028, 0x2029, 0x202F, 0x205F, 0x3000, 0xFEFF]"

definition trim :: "jsstring \<Rightarrow> jsstring" where
  "trim s = rev (dropWhile is_js_space (rev (dropWhile is_js_space s)))"

subsection \<open>Constants\<close>

definition DEFAULT_QUOTES :: "jsval list" where
  "DEFAULT_QUOTES = map JStr
    [js ''Build in public, cast in style.'',
     js ''One frame can change your feed.'',
     js ''Stay decentralized, stay visible.'',
     js ''Your words, onchain forever.'',
     js ''BASE IS FOR EVERYONE'',
     js ''JESSE IS BALD AND BASED'',
     js ''ETH-erion for life'',
     js ''Miniapp is the name, but bigger job than your PP'',
     js ''BASED META'',
     js ''Mint warplet or die'',
     js ''CLANKER here, CLANKER there, CLANKER everywhere'',
     js ''$NOICE? or NOICE'',
     js ''SATOSHI is building now on BASE'',
     js ''Yo mamma!'',
     js ''CAST or you are GAY'',
     js ''gm to the gmers and gm to the gners'',
     js ''RUGGED onchain'',
     js ''VITALIK GAY'',
     js ''ETH to $10,690'',
     js ''1 + 1 = BASED'',
     [0xD83D, 0xDC41, 0xFE0F, 0xD83E, 0xDEE6, 0xD83D, 0xDC41, 0xFE0F],
     js ''NO FEE NOVEMBER'',
     js ''NUT DAILY TRADE DAILY on FARCASTER'',
     [0xD83D, 0xDCF7, 0xD83C, 0xDF51]]"

definition STORAGE_KEY :: jsstring where
  "STORAGE_KEY = js ''castquotes_quotes_v1''"

definition ADMIN_PW_KEY :: jsstring where
  "ADMIN_PW_KEY = js ''castquotes_admin_pw_v1''"

definition RAW_GITHUB_URL :: jsstring where
  "RAW_GITHUB_URL = js ''https://raw.githubusercontent.com/HelloWorld2309/castquotes/main/quotes.json''"

subsection \<open>The platform: localStorage and JSON\<close>

text \<open>
  \<open>localStorage\<close> is a finite table from keys to strings. \<open>getItem\<close> yields \<open>null\<close> (here
  \<open>None\<close>) for a missing key and does not throw. \<open>setItem\<close> throws when the quota is
  exhausted or the storage is disabled; \<open>setItem_throws\<close> says whether it does in this
  session, and the thrown exception is the result \<open>None\<close>.
\<close>

record storage =
  items :: "jsstring \<rightharpoonup> jsstring"
  setItem_throws :: bool

definition getItem :: "storage \<Rightarrow> jsstring \<Rightarrow> jsstring option" where
  "getItem st k = items st k"

definition setItem :: "storage \<Rightarrow> jsstring \<Rightarrow> jsstring \<Rightarrow> storage option" where
  "setItem st k v =
     (if setItem_throws st then None else Some (st\<lparr>items := (items st)(k \<mapsto> v)\<rparr>))"

text \<open>
  \<open>JSON.parse\<close> and \<open>JSON.stringify\<close> belong to the JavaScript engine, not to the
  program, and are parameters of the model: \<open>JSON_parse\<close> returns \<open>None\<close> where
  \<open>JSON.parse\<close> throws a SyntaxError.
\<close>

record json_env =
  JSON_parse :: "jsstring \<Rightarrow> jsval option"
  JSON_stringify :: "jsval \<Rightarrow> jsstring"

subsection \<open>Quote store and admin secret\<close>

text \<open>\<open>loadQuotes\<close>: a missing or empty entry, a parse error, a non-array and an empty array
  all give a copy of the built-in list.\<close>

definition loadQuotes :: "json_env \<Rightarrow> storage \<Rightarrow> jsval list" where
  "loadQuotes env st =
     (case getItem st STORAGE_KEY of
        None \<Rightarrow> DEFAULT_QUOTES
      | Some raw \<Rightarrow>
          if raw = [] then DEFAULT_QUOTES
          else (case JSON_parse env raw of
                  None \<Rightarrow> DEFAULT_QUOTES
                | Some (JArr parsed) \<Rightarrow> if length parsed > 0 then parsed else DEFAULT_QUOTES
                | Some _ \<Rightarrow> DEFAULT_QUOTES))"

text \<open>\<open>saveQuotes\<close> and \<open>persistAdminPw\<close> swallow the exception of \<open>setItem\<close>.\<close>

definition saveQuotes :: "json_env \<Rightarrow> jsval list \<Rightarrow> storage \<Rightarrow> storage" where
  "saveQuotes env qs st =
     (case setItem st STORAGE_KEY (JSON_stringify env (JArr qs)) of
        None \<Rightarrow> st
      | Some st' \<Rightarrow> st')"

definition getAdminPw :: "storage \<Rightarrow> jsstring" where
  "getAdminPw st =
     (case getItem st ADMIN_PW_KEY of
        None \<Rightarrow> js ''basedfin''
      | Some stored \<Rightarrow> if stored = [] then js ''basedfin'' else stored)"

definition persistAdminPw :: "jsstring \<Rightarrow> storage \<Rightarrow> storage" where
  "persistAdminPw pw st =
     (case setItem st ADMIN_PW_KEY pw of
        None \<Rightarrow> st
      | Some st' \<Rightarrow> st')"

subsection \<open>Remote source\<close>

text \<open>
  What the single \<open>fetch\<close> of \<open>RAW_GITHUB_URL\<close> can come back with: the promise rejects
  (\<open>TransportError\<close>), or a response arrives with its \<open>ok\<close> flag and the result of
  \<open>res.json()\<close>, \<open>None\<close> when that rejects on a malformed body.
\<close>

datatype fetch_outcome =
    TransportError
  | Response bool "jsval option"

fun fetchQuotesFromGithub :: "fetch_outcome \<Rightarrow> jsval list option" where
  "fetchQuotesFromGithub TransportError = None"
| "fetchQuotesFromGithub (Response ok body) =
     (if \<not> ok then None
      else (case body of
              None \<Rightarrow> None
            | Some (JArr data) \<Rightarrow> if length data > 0 then Some data else None
            | Some _ \<Rightarrow> None))"

subsection \<open>Random pick\<close>

text \<open>
  \<open>pickRandomQuote\<close> returns \<open>quotes[i]\<close> for \<open>i = Math.floor(Math.random() * quotes.length)\<close>.
  The drawn index \<open>i\<close> is an input of the model; reading past the end of a JavaScript
  array gives \<open>undefined\<close>.
\<close>

definition pickRandomQuote :: "nat \<Rightarrow> jsval list \<Rightarrow> jsval" where
  "pickRandomQuote i quotes = (if i < length quotes then quotes ! i else JUndefined)"

subsection \<open>Component state\<close>

datatype auth_step = Locked | Unlocked

text \<open>What the program does to the outside world, in the order it does it.\<close>

datatype effect =
    FetchRequest jsstring
  | Alert jsstring
  | Confirm jsstring
  | Prompt jsstring jsval
  | OpenComposer jsval
  | PostMessage jsval jsstring
  | ClipboardWrite jsval

text \<open>
  The \<open>useState\<close> cells of \<open>App\<close>, together with the \<open>localStorage\<close> of the page and the
  log of effects. \<open>adminPwState\<close> is the cell whose value \<open>App\<close> discards
  (\<open>const [, setAdminPwState]\<close>): it is written and never read. \<open>quotesId\<close> is the identity
  of the array held in \<open>quotes\<close>: React compares the dependency \<open>[quotes]\<close> of the persist
  effect with \<open>Object.is\<close>, and every array the program passes to \<open>setQuotes\<close> is freshly
  allocated.
\<close>

record app =
  quotes :: "jsval list"
  quotesId :: nat
  quote :: jsval
  adminOpen :: bool
  authStep :: auth_step
  pwInput :: jsstring
  newQuoteText :: jsstring
  adminPwState :: jsstring
  localStorage :: storage
  log :: "effect list"

definition setQuotes :: "jsval list \<Rightarrow> app \<Rightarrow> app" where
  "setQuotes next s = s\<lparr>quotes := next, quotesId := Suc (quotesId s)\<rparr>"

definition emit :: "effect \<Rightarrow> app \<Rightarrow> app" where
  "emit e s = s\<lparr>log := log s @ [e]\<rparr>"

text \<open>The effect \<open>useEffect(() => { saveQuotes(quotes); }, [quotes])\<close>.\<close>

definition persist_effect :: "json_env \<Rightarrow> app \<Rightarrow> app" where
  "persist_effect env s = s\<lparr>localStorage := saveQuotes env (quotes s) (localStorage s)\<rparr>"

text \<open>A render after state updates: the persist effect runs again when the array in
  \<open>quotes\<close> is not the one of the previous render.\<close>

definition rerender :: "json_env \<Rightarrow> app \<Rightarrow> app \<Rightarrow> app" where
  "rerender env before after =
     (if quotesId after \<noteq> quotesId before then persist_effect env after else after)"

text \<open>An event handler runs to completion, then React renders.\<close>

definition on_event :: "json_env \<Rightarrow> (app \<Rightarrow> app) \<Rightarrow> app \<Rightarrow> app" where
  "on_event env handler s = rerender env s (handler s)"

subsection \<open>Mount: first render and the two effects\<close>

text \<open>The first render evaluates the \<open>useState\<close> initialisers.\<close>

definition first_render :: "json_env \<Rightarrow> storage \<Rightarrow> app" where
  "first_render env st =
     \<lparr>quotes = loadQuotes env st, quotesId = 0, quote = JStr [], adminOpen = False,
      authStep = Locked, pwInput = [], newQuoteText = [], adminPwState = getAdminPw st,
      localStorage = st, log = []\<rparr>"

text \<open>Step 1 of the resolver, the first \<open>try\<close> block: the stored list when it parses to a
  non-empty array.\<close>

definition resolver_step1 :: "json_env \<Rightarrow> storage \<Rightarrow> jsval list option" where
  "resolver_step1 env st =
     (case getItem st STORAGE_KEY of
        None \<Rightarrow> None
      | Some raw \<Rightarrow>
          if raw = [] then None
          else (case JSON_parse env raw of
                  None \<Rightarrow> None
                | Some (JArr parsed) \<Rightarrow> if length parsed > 0 then Some parsed else None
                | Some _ \<Rightarrow> None))"

text \<open>
  The effects of the mount, in declaration order. The resolver runs synchronously up to its
  first \<open>await\<close>: with a stored list it sets the state and returns (\<open>cancelled\<close> cannot be
  set yet); otherwise it issues the request and suspends. Then \<open>setAdminPwState(getAdminPw())\<close>.
  Then the persist effect runs with the \<open>quotes\<close> of the first render. State updates made
  by the resolver are rendered afterwards, which runs the persist effect again. The second
  component of the result says whether the resolver is suspended at the \<open>await\<close>.
\<close>

definition mount :: "json_env \<Rightarrow> nat \<Rightarrow> storage \<Rightarrow> app \<times> bool" where
  "mount env rnd st =
     (let s0 = first_render env st in
      case resolver_step1 env (localStorage s0) of
        Some parsed \<Rightarrow>
          (let s1 = (setQuotes parsed s0)\<lparr>quote := pickRandomQuote rnd parsed\<rparr>;
               s2 = s1\<lparr>adminPwState := getAdminPw (localStorage s1)\<rparr>;
               s3 = s2\<lparr>localStorage := saveQuotes env (quotes s0) (localStorage s2)\<rparr>
           in (rerender env s0 s3, False))
      | None \<Rightarrow>
          (let s1 = emit (FetchRequest RAW_GITHUB_URL) s0;
               s2 = s1\<lparr>adminPwState := getAdminPw (localStorage s1)\<rparr>;
               s3 = persist_effect env s2
           in (s3, True)))"

text \<open>
  The rest of the resolver, run when the request settles: \<open>cancelled\<close> is set when the
  component was unmounted in the meantime.
\<close>

definition resolver_resume :: "json_env \<Rightarrow> nat \<Rightarrow> bool \<Rightarrow> fetch_outcome \<Rightarrow> app \<Rightarrow> app" where
  "resolver_resume env rnd cancelled outcome s =
     (case (if \<not> cancelled then fetchQuotesFromGithub outcome else None) of
        Some remote \<Rightarrow>
          (let s1 = (setQuotes remote s)\<lparr>quote := pickRandomQuote rnd remote\<rparr>;
               s2 = (case setItem (localStorage s1) STORAGE_KEY (JSON_stringify env (JArr remote)) of
                       None \<Rightarrow> s1
                     | Some st' \<Rightarrow> s1\<lparr>localStorage := st'\<rparr>)
           in rerender env s s2)
      | None \<Rightarrow>
          if \<not> cancelled
          then rerender env s
                 ((setQuotes DEFAULT_QUOTES s)\<lparr>quote := pickRandomQuote rnd DEFAULT_QUOTES\<rparr>)
          else s)"

text \<open>The whole load: mount, and the continuation of the resolver if it suspended.\<close>

definition load :: "json_env \<Rightarrow> nat \<Rightarrow> bool \<Rightarrow> fetch_outcome \<Rightarrow> storage \<Rightarrow> app" where
  "load env rnd cancelled outcome st =
     (case mount env rnd st of
        (s, pending) \<Rightarrow> if pending then resolver_resume env rnd cancelled outcome s else s)"

definition network_requests :: "app \<Rightarrow> nat" where
  "network_requests s = length (filter (\<lambda>e. case e of FetchRequest _ \<Rightarrow> True | _ \<Rightarrow> False) (log s))"

subsection \<open>Cast dispatcher\<close>

text \<open>
  The host page as \<open>tryOpenFarcasterComposer\<close> meets it. Looking up
  \<open>window.farcaster || window.Farcaster\<close> and its \<open>openComposer\<close> either throws, finds no
  function, or finds one; a found function, when called, either throws synchronously or
  returns. \<open>postMessage_throws\<close>: the call \<open>window.parent.postMessage\<close> throws.
  \<open>clipboard_fails\<close>: \<open>navigator.clipboard.writeText\<close> throws or rejects.
\<close>

datatype composer = LookupThrows | NoComposer | Composer bool

record host =
  host_composer :: composer
  postMessage_throws :: bool
  clipboard_fails :: bool

definition composer_message :: "jsval \<Rightarrow> jsval" where
  "composer_message text =
     JObj [(js ''source'', JStr (js ''castquotes-miniapp'')),
           (js ''type'', JStr (js ''OPEN_COMPOSER'')),
           (js ''text'', text)]"

text \<open>The last two channels: clipboard with a notice, or the blocking prompt.\<close>

definition clipboard_or_prompt :: "host \<Rightarrow> jsval \<Rightarrow> effect list" where
  "clipboard_or_prompt h text =
     (if clipboard_fails h then [Prompt (js ''Copy this quote:'') text]
      else [ClipboardWrite text,
            Alert (js ''Quote copied to clipboard. Paste it into Farcaster to cast.'')])"

text \<open>The second channel and what follows it when posting throws.\<close>

definition post_or_later :: "host \<Rightarrow> jsval \<Rightarrow> effect list" where
  "post_or_later h text =
     (if postMessage_throws h then clipboard_or_prompt h text
      else [PostMessage (composer_message text) (js ''*'')])"

text \<open>
  \<open>tryOpenFarcasterComposer\<close>, as the list of effects it performs. The call of
  \<open>openComposer\<close> sits inside the first \<open>try\<close>: when it throws, the \<open>catch\<close> swallows the
  exception and the function goes on to \<open>postMessage\<close>.
\<close>

definition tryOpenFarcasterComposer :: "host \<Rightarrow> jsval \<Rightarrow> effect list" where
  "tryOpenFarcasterComposer h text =
     (case host_composer h of
        LookupThrows \<Rightarrow> post_or_later h text
      | NoComposer \<Rightarrow> post_or_later h text
      | Composer throws \<Rightarrow>
          if throws then OpenComposer text # post_or_later h text
          else [OpenComposer text])"

definition onCastClick :: "host \<Rightarrow> app \<Rightarrow> app" where
  "onCastClick h s =
     (if \<not> truthy (quote s) then s
      else s\<lparr>log := log s @ tryOpenFarcasterComposer h (quote s)\<rparr>)"

subsection \<open>Admin handlers\<close>

definition openAdmin :: "app \<Rightarrow> app" where
  "openAdmin s = s\<lparr>pwInput := [], authStep := Locked, adminOpen := True\<rparr>"

definition tryUnlock :: "app \<Rightarrow> app" where
  "tryUnlock s =
     (let pw = getAdminPw (localStorage s) in
      if pwInput s = pw then s\<lparr>authStep := Unlocked, pwInput := []\<rparr>
      else emit (Alert (js ''Incorrect password.'')) s)"

definition handleAddQuote :: "app \<Rightarrow> app" where
  "handleAddQuote s =
     (let t = trim (newQuoteText s) in
      if t = [] then s
      else emit (Alert (js ''Quote added (saved locally).''))
             ((setQuotes (JStr t # quotes s) s)\<lparr>newQuoteText := []\<rparr>))"

text \<open>
  \<open>next.splice(idx, 1)\<close>: a negative start counts from the end, the start is clamped to
  the array, and at most one element is removed.
\<close>

definition splice1 :: "int \<Rightarrow> 'a list \<Rightarrow> 'a list" where
  "splice1 idx xs =
     (let len = int (length xs);
          start = nat (if idx < 0 then max (len + idx) 0 else min idx len)
      in take start xs @ drop (Suc start) xs)"

text \<open>The first argument of the two handlers below is the answer to \<open>confirm\<close>.\<close>

definition handleDeleteQuote :: "bool \<Rightarrow> int \<Rightarrow> app \<Rightarrow> app" where
  "handleDeleteQuote confirmed idx s =
     (let s1 = emit (Confirm (js ''Delete this quote?'')) s in
      if \<not> confirmed then s1
      else emit (Alert (js ''Deleted (saved locally).''))
             (setQuotes (splice1 idx (quotes s1)) s1))"

definition handleSetPw :: "app \<Rightarrow> app" where
  "handleSetPw s =
     (let t = trim (pwInput s) in
      if length t < 4 then emit (Alert (js ''Password must be at least 4 characters.'')) s
      else (emit (Alert (js ''Password updated.''))
              (s\<lparr>localStorage := persistAdminPw t (localStorage s), adminPwState := t\<rparr>))
           \<lparr>pwInput := []\<rparr>)"

definition handleResetToDefault :: "json_env \<Rightarrow> bool \<Rightarrow> app \<Rightarrow> app" where
  "handleResetToDefault env confirmed s =
     (let s1 = emit (Confirm (js ''Reset all quotes to the original default list? This will overwrite local edits.'')) s in
      if \<not> confirmed then s1
      else (let s2 = setQuotes DEFAULT_QUOTES s1;
                s3 = s2\<lparr>localStorage := saveQuotes env DEFAULT_QUOTES (localStorage s2)\<rparr>
            in emit (Alert (js ''Reset complete.'')) s3))"

text \<open>The \<open>onChange\<close> handlers of the two inputs, and closing the panel.\<close>

definition typePw :: "jsstring \<Rightarrow> app \<Rightarrow> app" where
  "typePw v s = s\<lparr>pwInput := v\<rparr>"

definition typeNewQuote :: "jsstring \<Rightarrow> app \<Rightarrow> app" where
  "typeNewQuote v s = s\<lparr>newQuoteText := v\<rparr>"

definition closeAdmin :: "app \<Rightarrow> app" where
  "closeAdmin s = s\<lparr>adminOpen := False\<rparr>"

text \<open>An authentication attempt: open the panel (which locks it), type \<open>p\<close>, press Unlock.\<close>

definition authenticates :: "jsstring \<Rightarrow> app \<Rightarrow> bool" where
  "authenticates p s \<longleftrightarrow> authStep (tryUnlock (typePw p (openAdmin s))) = Unlocked"

subsection \<open>Sample inputs\<close>

text \<open>
  The texts \<open>["gm"]\<close> and \<open>[]\<close>, and a fragment of the engine's JSON functions that knows
  these two texts and the values they denote; the examples below use it on nothing else
  whose result they state.
\<close>

definition gm_text :: jsstring where
  "gm_text = [0x5B, 0x22, 0x67, 0x6D, 0x22, 0x5D]"

definition empty_array_text :: jsstring where
  "empty_array_text = [0x5B, 0x5D]"

definition sample_json :: json_env where
  "sample_json =
     \<lparr>JSON_parse = (\<lambda>raw. if raw = gm_text then Some (JArr [JStr (js ''gm'')])
                           else if raw = empty_array_text then Some (JArr [])
                           else None),
      JSON_stringify = (\<lambda>v. if v = JArr [JStr (js ''gm'')] then gm_text
                             else if v = JArr [] then empty_array_text
                             else [])\<rparr>"

text \<open>A browser with nothing stored, one where the list \<open>["gm"]\<close> is stored, and one with
  nothing stored whose \<open>setItem\<close> throws.\<close>

definition fresh_storage :: storage where
  "fresh_storage = \<lparr>items = Map.empty, setItem_throws = False\<rparr>"

definition gm_storage :: storage where
  "gm_storage = \<lparr>items = [STORAGE_KEY \<mapsto> gm_text], setItem_throws = False\<rparr>"

definition full_storage :: storage where
  "full_storage = \<lparr>items = Map.empty, setItem_throws = True\<rparr>"

section \<open>Properties\<close>

subsection \<open>Basic facts\<close>

lemma keys_distinct: "STORAGE_KEY \<noteq> ADMIN_PW_KEY"
  by (simp add: STORAGE_KEY_def ADMIN_PW_KEY_def js_def)

lemma DEFAULT_QUOTES_length: "length DEFAULT_QUOTES = 24"
  by (simp add: DEFAULT_QUOTES_def)

lemma DEFAULT_QUOTES_nonempty: "DEFAULT_QUOTES \<noteq> []"
  by (simp add: DEFAULT_QUOTES_def)

lemma resolver_step1_nonempty: "resolver_step1 env st = Some parsed \<Longrightarrow> parsed \<noteq> []"
  by (auto simp: resolver_step1_def split: option.splits jsval.splits if_splits)

lemma resolver_step1_stored:
  "getItem st STORAGE_KEY = Some raw \<Longrightarrow> raw \<noteq> [] \<Longrightarrow> JSON_parse env raw = Some (JArr L)
   \<Longrightarrow> L \<noteq> [] \<Longrightarrow> resolver_step1 env st = Some L"
  by (simp add: resolver_step1_def)

lemma resolver_step1_absent: "getItem st STORAGE_KEY = None \<Longrightarrow> resolver_step1 env st = None"
  by (simp add: resolver_step1_def)

text \<open>The initialiser \<open>loadQuotes\<close> and step 1 of the resolver read the store alike.\<close>

lemma loadQuotes_step1:
  "loadQuotes env st =
     (case resolver_step1 env st of None \<Rightarrow> DEFAULT_QUOTES | Some parsed \<Rightarrow> parsed)"
  by (simp add: loadQuotes_def resolver_step1_def split: option.split jsval.split)

lemma fetchQuotesFromGithub_nonempty:
  "fetchQuotesFromGithub outcome = Some data \<Longrightarrow> data \<noteq> []"
  by (cases outcome) (auto split: option.splits jsval.splits if_splits)

lemma getItem_saveQuotes:
  "getItem (saveQuotes env qs st) STORAGE_KEY =
     (if setItem_throws st then getItem st STORAGE_KEY
      else Some (JSON_stringify env (JArr qs)))"
  by (simp add: saveQuotes_def setItem_def getItem_def)

lemma setItem_throws_saveQuotes: "setItem_throws (saveQuotes env qs st) = setItem_throws st"
  by (simp add: saveQuotes_def setItem_def)

lemma getAdminPw_saveQuotes: "getAdminPw (saveQuotes env qs st) = getAdminPw st"
  using keys_distinct by (simp add: getAdminPw_def saveQuotes_def setItem_def getItem_def)

lemma quotes_rerender: "quotes (rerender env before after) = quotes after"
  by (simp add: rerender_def persist_effect_def)

lemma log_rerender: "log (rerender env before after) = log after"
  by (simp add: rerender_def persist_effect_def)

subsection \<open>The load, path by path\<close>

lemma load_step1:
  "resolver_step1 env st = Some L \<Longrightarrow>
   load env rnd cancelled outcome st =
     persist_effect env
       ((first_render env st)\<lparr>quotes := L, quotesId := 1, quote := pickRandomQuote rnd L,
          localStorage := saveQuotes env (loadQuotes env st) st\<rparr>)"
  by (simp add: load_def mount_def Let_def first_render_def setQuotes_def rerender_def)

lemma load_step1_result:
  "resolver_step1 env st = Some L \<Longrightarrow>
   quotes (load env rnd cancelled outcome st) = L
   \<and> network_requests (load env rnd cancelled outcome st) = 0"
  by (simp add: load_step1 persist_effect_def first_render_def network_requests_def)

lemma load_remote:
  "resolver_step1 env st = None \<Longrightarrow> fetchQuotesFromGithub outcome = Some R \<Longrightarrow>
   load env rnd False outcome st =
     (let s = persist_effect env ((emit (FetchRequest RAW_GITHUB_URL) (first_render env st))
                 \<lparr>adminPwState := getAdminPw st\<rparr>);
          s1 = (setQuotes R s)\<lparr>quote := pickRandomQuote rnd R\<rparr>;
          s2 = (case setItem (localStorage s1) STORAGE_KEY (JSON_stringify env (JArr R)) of
                  None \<Rightarrow> s1 | Some st' \<Rightarrow> s1\<lparr>localStorage := st'\<rparr>)
      in persist_effect env s2)"
  by (simp add: load_def mount_def Let_def first_render_def setQuotes_def rerender_def
        resolver_resume_def emit_def persist_effect_def split: option.split)

lemma load_default:
  "resolver_step1 env st = None \<Longrightarrow> fetchQuotesFromGithub outcome = None \<Longrightarrow>
   load env rnd False outcome st =
     (let s = persist_effect env ((emit (FetchRequest RAW_GITHUB_URL) (first_render env st))
                 \<lparr>adminPwState := getAdminPw st\<rparr>)
      in persist_effect env
           ((setQuotes DEFAULT_QUOTES s)\<lparr>quote := pickRandomQuote rnd DEFAULT_QUOTES\<rparr>))"
  by (simp add: load_def mount_def Let_def first_render_def setQuotes_def rerender_def
        resolver_resume_def emit_def persist_effect_def)

text \<open>The list in the state after the load, whatever happened.\<close>

lemma quotes_load:
  "quotes (load env rnd cancelled outcome st) =
     (case resolver_step1 env st of
        Some parsed \<Rightarrow> parsed
      | None \<Rightarrow> (case fetchQuotesFromGithub outcome of
                   Some remote \<Rightarrow> if cancelled then DEFAULT_QUOTES else remote
                 | None \<Rightarrow> DEFAULT_QUOTES))"
  by (simp add: load_def mount_def Let_def quotes_rerender resolver_resume_def setQuotes_def
        persist_effect_def emit_def first_render_def loadQuotes_step1 split: option.split)

lemma load_nonempty: "quotes (load env rnd cancelled outcome st) \<noteq> []"
  using resolver_step1_nonempty[of env st] fetchQuotesFromGithub_nonempty[of outcome]
    DEFAULT_QUOTES_nonempty
  by (simp add: quotes_load split: option.split)

lemma resolver_step1_fresh: "resolver_step1 env fresh_storage = None"
  by (simp add: resolver_step1_def fresh_storage_def getItem_def)

lemma resolver_step1_gm: "resolver_step1 sample_json gm_storage = Some [JStr (js ''gm'')]"
  by (simp add: resolver_step1_def sample_json_def gm_storage_def getItem_def gm_text_def)

subsection \<open>Admin mutations\<close>

lemma splice1_0_Cons: "splice1 0 (x # xs) = xs"
  by (simp add: splice1_def)

lemma splice1_nonempty: "2 \<le> length xs \<Longrightarrow> splice1 idx xs \<noteq> []"
  by (auto simp: splice1_def Let_def)

lemma quotes_add:
  "quotes (on_event env handleAddQuote s) =
     (if trim (newQuoteText s) = [] then quotes s
      else JStr (trim (newQuoteText s)) # quotes s)"
  by (simp add: on_event_def quotes_rerender handleAddQuote_def Let_def emit_def setQuotes_def)

lemma quotes_delete:
  "quotes (on_event env (handleDeleteQuote confirmed idx) s) =
     (if confirmed then splice1 idx (quotes s) else quotes s)"
  by (simp add: on_event_def quotes_rerender handleDeleteQuote_def Let_def emit_def
        setQuotes_def)

lemma quotes_reset:
  "quotes (on_event env (handleResetToDefault env confirmed) s) =
     (if confirmed then DEFAULT_QUOTES else quotes s)"
  by (simp add: on_event_def quotes_rerender handleResetToDefault_def Let_def emit_def
        setQuotes_def)

lemma quotes_first_render_fresh: "quotes (first_render env fresh_storage) = DEFAULT_QUOTES"
  by (simp add: first_render_def loadQuotes_step1 resolver_step1_fresh)

lemma quotes_first_render_gm: "quotes (first_render sample_json gm_storage) = [JStr (js ''gm'')]"
  by (simp add: first_render_def loadQuotes_step1 resolver_step1_gm)

subsection \<open>Admin secret\<close>

lemma getAdminPw_persist:
  "\<not> setItem_throws st \<Longrightarrow> t \<noteq> [] \<Longrightarrow> getAdminPw (persistAdminPw t st) = t"
  by (simp add: getAdminPw_def persistAdminPw_def setItem_def getItem_def)

lemma persistAdminPw_throws: "setItem_throws st \<Longrightarrow> persistAdminPw t st = st"
  by (simp add: persistAdminPw_def setItem_def)

text \<open>Authentication compares the input with what \<open>getAdminPw\<close> reads from the store.\<close>

lemma authenticates_iff: "authenticates p s \<longleftrightarrow> p = getAdminPw (localStorage s)"
  by (simp add: authenticates_def tryUnlock_def typePw_def openAdmin_def Let_def emit_def)

lemma localStorage_handleSetPw:
  "localStorage (handleSetPw s) =
     (if length (trim (pwInput s)) < 4 then localStorage s
      else persistAdminPw (trim (pwInput s)) (localStorage s))"
  by (simp add: handleSetPw_def Let_def emit_def)

lemma trim_abcd: "trim (js ''abcd'') = js ''abcd''"
  by (simp add: js_def trim_def is_js_space_def)

lemma trim_ab: "trim (js ''ab'') = js ''ab''"
  by (simp add: js_def trim_def is_js_space_def)

lemma trim_gm: "trim (js '' gm '') = js ''gm''"
  by (simp add: js_def trim_def is_js_space_def)

lemma getAdminPw_fresh: "getAdminPw fresh_storage = js ''basedfin''"
  by (simp add: getAdminPw_def fresh_storage_def getItem_def)

subsection \<open>Cast dispatcher\<close>

lemma post_or_later_cases:
  "post_or_later h text =
     (if \<not> postMessage_throws h then [PostMessage (composer_message text) (js ''*'')]
      else if \<not> clipboard_fails h
           then [ClipboardWrite text,
                 Alert (js ''Quote copied to clipboard. Paste it into Farcaster to cast.'')]
           else [Prompt (js ''Copy this quote:'') text])"
  by (simp add: post_or_later_def clipboard_or_prompt_def)

section \<open>The claims\<close>

subsection \<open>C1: default fallback and the store\<close>

text \<open>
  C1. With nothing stored and a request that fails, the load ends with the built-in default
  list in the state. The store does not stay empty: the persist effect runs at mount with
  the list of the first render, and again after the resolver's \<open>setQuotes\<close>, so for a
  store that accepts writes the quotes entry holds the serialised default list already
  while the request is pending, and still does after the fallback.
\<close>

theorem default_fallback_writes_defaults:
  "quotes (load env rnd False TransportError fresh_storage) = DEFAULT_QUOTES
 \<and> getItem fresh_storage STORAGE_KEY = None
 \<and> getItem (localStorage (fst (mount env rnd fresh_storage))) STORAGE_KEY
     = Some (JSON_stringify env (JArr DEFAULT_QUOTES))
 \<and> getItem (localStorage (load env rnd False TransportError fresh_storage)) STORAGE_KEY
     = Some (JSON_stringify env (JArr DEFAULT_QUOTES))"
proof -
  have none: "fetchQuotesFromGithub TransportError = None"
    by simp
  have w: "\<not> setItem_throws fresh_storage" and e: "getItem fresh_storage STORAGE_KEY = None"
    by (simp_all add: fresh_storage_def getItem_def)
  have at_mount: "getItem (localStorage (fst (mount env rnd fresh_storage))) STORAGE_KEY
      = Some (JSON_stringify env (JArr DEFAULT_QUOTES))"
    using w
    by (simp add: mount_def resolver_step1_fresh Let_def first_render_def emit_def
          persist_effect_def getItem_saveQuotes loadQuotes_step1)
  have after: "quotes (load env rnd False TransportError fresh_storage) = DEFAULT_QUOTES
      \<and> getItem (localStorage (load env rnd False TransportError fresh_storage)) STORAGE_KEY
          = Some (JSON_stringify env (JArr DEFAULT_QUOTES))"
    using w
    by (simp add: load_default[OF resolver_step1_fresh none] Let_def persist_effect_def
          setQuotes_def getItem_saveQuotes setItem_throws_saveQuotes emit_def first_render_def)
  from e at_mount after show ?thesis
    by simp
qed

subsection \<open>C2: a stored list wins\<close>

text \<open>
  C2. When the quotes entry of the store holds a text that parses to a non-empty array
  \<open>L\<close>, the load ends with exactly \<open>L\<close> in the state and has issued no network request,
  whatever the remote source would have answered.
\<close>

theorem stored_list_takes_precedence:
  assumes "getItem st STORAGE_KEY = Some raw" and "raw \<noteq> []"
    and "JSON_parse env raw = Some (JArr L)" and "L \<noteq> []"
  shows "quotes (load env rnd cancelled outcome st) = L
       \<and> network_requests (load env rnd cancelled outcome st) = 0"
  using resolver_step1_stored[OF assms] by (rule load_step1_result)

theorem stored_list_takes_precedence_witness:
  "getItem gm_storage STORAGE_KEY = Some gm_text \<and> gm_text \<noteq> []
 \<and> JSON_parse sample_json gm_text = Some (JArr [JStr (js ''gm'')])
 \<and> quotes (load sample_json 0 False (Response True (Some (JArr [JStr (js ''wagmi'')])))
       gm_storage) = [JStr (js ''gm'')]
 \<and> network_requests (load sample_json 0 False
       (Response True (Some (JArr [JStr (js ''wagmi'')]))) gm_storage) = 0"
proof -
  have a: "getItem gm_storage STORAGE_KEY = Some gm_text"
    by (simp add: gm_storage_def getItem_def)
  have b: "gm_text \<noteq> []"
    by (simp add: gm_text_def)
  have c: "JSON_parse sample_json gm_text = Some (JArr [JStr (js ''gm'')])"
    by (simp add: sample_json_def)
  have d: "[JStr (js ''gm'')] \<noteq> []"
    by simp
  from a b c stored_list_takes_precedence[OF a b c d] show ?thesis
    by simp
qed

subsection \<open>C3: a remote list is adopted and persisted\<close>

text \<open>
  C3. When the store yields no list (step 1 of the resolver finds nothing usable), the
  request answers with a non-empty array \<open>R\<close>, the component is still mounted and the store
  accepts writes, the load ends with \<open>R\<close> in the state and the quotes entry of the store
  holds the serialised \<open>R\<close>. If the engine parses that text back to \<open>R\<close>, any later load
  from this store ends with \<open>R\<close> and issues no network request.
\<close>

theorem remote_list_adopted_and_persisted:
  assumes "resolver_step1 env st = None"
    and "outcome = Response True (Some (JArr R))" and "R \<noteq> []"
    and "\<not> setItem_throws st"
  shows "quotes (load env rnd False outcome st) = R
       \<and> getItem (localStorage (load env rnd False outcome st)) STORAGE_KEY
           = Some (JSON_stringify env (JArr R))
       \<and> (JSON_stringify env (JArr R) \<noteq> []
            \<and> JSON_parse env (JSON_stringify env (JArr R)) = Some (JArr R) \<longrightarrow>
          quotes (load env rnd' cancelled' outcome'
                    (localStorage (load env rnd False outcome st))) = R
          \<and> network_requests (load env rnd' cancelled' outcome'
                    (localStorage (load env rnd False outcome st))) = 0)"
proof -
  let ?st' = "localStorage (load env rnd False outcome st)"
  have f: "fetchQuotesFromGithub outcome = Some R"
    using assms(2,3) by simp
  have now: "quotes (load env rnd False outcome st) = R
      \<and> getItem ?st' STORAGE_KEY = Some (JSON_stringify env (JArr R))"
    using assms(4)
    by (simp add: load_remote[OF assms(1) f] Let_def persist_effect_def setQuotes_def emit_def
          first_render_def getItem_saveQuotes setItem_throws_saveQuotes setItem_def
          split: option.split)
  have later: "quotes (load env rnd' cancelled' outcome' ?st') = R
      \<and> network_requests (load env rnd' cancelled' outcome' ?st') = 0"
    if ne: "JSON_stringify env (JArr R) \<noteq> []"
      and rt: "JSON_parse env (JSON_stringify env (JArr R)) = Some (JArr R)"
  proof -
    from now have "getItem ?st' STORAGE_KEY = Some (JSON_stringify env (JArr R))"
      by simp
    from resolver_step1_stored[OF this ne rt assms(3)] show ?thesis
      by (rule load_step1_result)
  qed
  from now later show ?thesis
    by blast
qed

theorem remote_list_adopted_and_persisted_witness:
  "resolver_step1 sample_json fresh_storage = None
 \<and> \<not> setItem_throws fresh_storage
 \<and> quotes (load sample_json 0 False (Response True (Some (JArr [JStr (js ''gm'')])))
       fresh_storage) = [JStr (js ''gm'')]
 \<and> getItem (localStorage (load sample_json 0 False
       (Response True (Some (JArr [JStr (js ''gm'')]))) fresh_storage)) STORAGE_KEY
     = Some gm_text
 \<and> JSON_parse sample_json (JSON_stringify sample_json (JArr [JStr (js ''gm'')]))
     = Some (JArr [JStr (js ''gm'')])
 \<and> network_requests (load sample_json 0 False TransportError
       (localStorage (load sample_json 0 False
          (Response True (Some (JArr [JStr (js ''gm'')]))) fresh_storage))) = 0"
proof -
  have w: "\<not> setItem_throws fresh_storage"
    by (simp add: fresh_storage_def)
  have d: "[JStr (js ''gm'')] \<noteq> []"
    by simp
  have t: "JSON_stringify sample_json (JArr [JStr (js ''gm'')]) = gm_text"
    by (simp add: sample_json_def)
  have p: "JSON_parse sample_json gm_text = Some (JArr [JStr (js ''gm'')])"
    by (simp add: sample_json_def)
  have ne: "gm_text \<noteq> []"
    by (simp add: gm_text_def)
  from w t p ne
    remote_list_adopted_and_persisted[OF resolver_step1_fresh refl d w,
      of sample_json 0 0 False TransportError]
  show ?thesis
    by (simp add: resolver_step1_fresh)
qed

subsection \<open>C4: what the remote fetch accepts\<close>

text \<open>
  C4, as the code has it. \<open>fetchQuotesFromGithub\<close> yields a list exactly when a response
  arrived, its \<open>ok\<close> flag is set and its body decodes to a non-empty array; the list is
  that array. The elements of the array are not inspected.
\<close>

theorem fetchQuotesFromGithub_accepts_iff:
  "fetchQuotesFromGithub outcome = Some data
     \<longleftrightarrow> outcome = Response True (Some (JArr data)) \<and> data \<noteq> []"
  by (cases outcome) (auto split: option.splits jsval.splits if_splits)

text \<open>
  C4 as stated fails: an array holding a number and an empty string is accepted as it is.
\<close>

theorem fetch_accepts_unvalidated_elements:
  "fetchQuotesFromGithub (Response True (Some (JArr [JNum 7, JStr []])))
     = Some [JNum 7, JStr []]"
  by simp

subsection \<open>C5: when the quote list is non-empty\<close>

text \<open>
  C5, as the code has it. The list in the state is non-empty after the load, whatever the
  store and the remote source held, and it is the built-in list of 24 quotes when neither
  source yields a list. Adding a quote and resetting keep a non-empty list non-empty, and
  so does deleting by index from a list of at least two quotes. Deleting the only quote of
  a one-element list leaves the empty list in the state.
\<close>

theorem quotes_nonempty_unless_last_deleted:
  "quotes (load env rnd cancelled outcome st) \<noteq> []
 \<and> (resolver_step1 env st = None \<and> fetchQuotesFromGithub outcome = None \<longrightarrow>
       quotes (load env rnd cancelled outcome st) = DEFAULT_QUOTES)
 \<and> length DEFAULT_QUOTES = 24
 \<and> (quotes s \<noteq> [] \<longrightarrow>
       quotes (on_event env handleAddQuote s) \<noteq> []
     \<and> quotes (on_event env (handleResetToDefault env confirmed) s) \<noteq> [])
 \<and> (2 \<le> length (quotes s) \<longrightarrow>
       quotes (on_event env (handleDeleteQuote confirmed idx) s) \<noteq> [])
 \<and> (length (quotes s) = 1 \<longrightarrow>
       quotes (on_event env (handleDeleteQuote True 0) s) = [])"
proof -
  have single: "quotes (on_event env (handleDeleteQuote True 0) s) = []"
    if "length (quotes s) = 1"
  proof -
    from that obtain x where "quotes s = [x]"
      by (cases "quotes s") auto
    then show ?thesis
      by (simp add: quotes_delete splice1_0_Cons)
  qed
  have del: "quotes (on_event env (handleDeleteQuote confirmed idx) s) \<noteq> []"
    if "2 \<le> length (quotes s)"
    using that splice1_nonempty[OF that, of idx] by (auto simp: quotes_delete)
  show ?thesis
    using single del load_nonempty[of env rnd cancelled outcome st] DEFAULT_QUOTES_nonempty
    by (simp add: quotes_load quotes_add quotes_reset DEFAULT_QUOTES_length)
qed

theorem quotes_nonempty_unless_last_deleted_witness:
  "quotes (load sample_json 0 False TransportError fresh_storage) = DEFAULT_QUOTES
 \<and> quotes (on_event sample_json handleAddQuote
       (typeNewQuote (js ''gm'') (first_render sample_json fresh_storage))) \<noteq> []
 \<and> quotes (on_event sample_json (handleResetToDefault sample_json True)
       (first_render sample_json fresh_storage)) \<noteq> []
 \<and> quotes (on_event sample_json (handleDeleteQuote True 3)
       (first_render sample_json fresh_storage)) \<noteq> []
 \<and> quotes (on_event sample_json (handleDeleteQuote True 0)
       (first_render sample_json gm_storage)) = []"
proof -
  have d: "quotes (typeNewQuote (js ''gm'') (first_render sample_json fresh_storage))
      = DEFAULT_QUOTES"
    by (simp add: typeNewQuote_def quotes_first_render_fresh)
  show ?thesis
    using quotes_nonempty_unless_last_deleted[of sample_json 0 False TransportError fresh_storage
        "typeNewQuote (js ''gm'') (first_render sample_json fresh_storage)" True 3]
      quotes_nonempty_unless_last_deleted[of sample_json 0 False TransportError fresh_storage
        "first_render sample_json fresh_storage" True 3]
      quotes_nonempty_unless_last_deleted[of sample_json 0 False TransportError fresh_storage
        "first_render sample_json gm_storage" True 3]
    by (simp add: resolver_step1_fresh quotes_first_render_fresh quotes_first_render_gm d
          DEFAULT_QUOTES_length DEFAULT_QUOTES_nonempty)
qed

text \<open>
  C5 as stated fails: after a load that found the one-element list \<open>["gm"]\<close> in the store,
  deleting the quote at index 0 leaves the empty list in the state.
\<close>

theorem delete_last_quote_empties_list:
  "quotes (load sample_json 0 False TransportError gm_storage) = [JStr (js ''gm'')]
 \<and> quotes (on_event sample_json (handleDeleteQuote True 0)
       (load sample_json 0 False TransportError gm_storage)) = []"
  by (simp add: quotes_delete quotes_load resolver_step1_gm splice1_0_Cons)

subsection \<open>C6: the order of the cast channels\<close>

text \<open>
  C6, as the code has it. A host composer that is present and returns is called with the
  text, and nothing else happens. A host composer that is present and throws is called
  with the text, and the dispatch goes on with the cross-frame post and what follows it.
  Without a host composer (none found, or the lookup throws) and with a post that does not
  throw, the dispatch posts the one message \<open>{source, type: "OPEN_COMPOSER", text}\<close> to
  any origin and does nothing else. A clipboard write happens only when the post threw,
  and the prompt only when the post threw and the clipboard write failed.
\<close>

theorem dispatch_channel_order:
  "(host_composer h = Composer False \<longrightarrow>
      tryOpenFarcasterComposer h text = [OpenComposer text])
 \<and> (host_composer h = Composer True \<longrightarrow>
      tryOpenFarcasterComposer h text = OpenComposer text # post_or_later h text)
 \<and> ((host_composer h = NoComposer \<or> host_composer h = LookupThrows)
       \<and> \<not> postMessage_throws h \<longrightarrow>
      tryOpenFarcasterComposer h text =
        [PostMessage (JObj [(js ''source'', JStr (js ''castquotes-miniapp'')),
                            (js ''type'', JStr (js ''OPEN_COMPOSER'')),
                            (js ''text'', text)]) (js ''*'')])
 \<and> (ClipboardWrite t \<in> set (tryOpenFarcasterComposer h text) \<longrightarrow>
      postMessage_throws h \<and> \<not> clipboard_fails h \<and> t = text)
 \<and> (Prompt m t \<in> set (tryOpenFarcasterComposer h text) \<longrightarrow>
      postMessage_throws h \<and> clipboard_fails h \<and> t = text)"
  by (cases "host_composer h")
     (auto simp: tryOpenFarcasterComposer_def post_or_later_cases composer_message_def
        split: if_splits)

theorem dispatch_channel_order_witness:
  "tryOpenFarcasterComposer
     \<lparr>host_composer = Composer False, postMessage_throws = False, clipboard_fails = False\<rparr>
     (JStr (js ''gm'')) = [OpenComposer (JStr (js ''gm''))]
 \<and> tryOpenFarcasterComposer
     \<lparr>host_composer = NoComposer, postMessage_throws = False, clipboard_fails = False\<rparr>
     (JStr (js ''gm''))
     = [PostMessage (JObj [(js ''source'', JStr (js ''castquotes-miniapp'')),
                           (js ''type'', JStr (js ''OPEN_COMPOSER'')),
                           (js ''text'', JStr (js ''gm''))]) (js ''*'')]
 \<and> ClipboardWrite (JStr (js ''gm'')) \<in> set (tryOpenFarcasterComposer
     \<lparr>host_composer = NoComposer, postMessage_throws = True, clipboard_fails = False\<rparr>
     (JStr (js ''gm'')))
 \<and> tryOpenFarcasterComposer
     \<lparr>host_composer = Composer True, postMessage_throws = True, clipboard_fails = True\<rparr>
     (JStr (js ''gm''))
     = [OpenComposer (JStr (js ''gm'')), Prompt (js ''Copy this quote:'') (JStr (js ''gm''))]"
  using dispatch_channel_order[of
      "\<lparr>host_composer = Composer False, postMessage_throws = False, clipboard_fails = False\<rparr>"
      "JStr (js ''gm'')"]
    dispatch_channel_order[of
      "\<lparr>host_composer = NoComposer, postMessage_throws = False, clipboard_fails = False\<rparr>"
      "JStr (js ''gm'')"]
    dispatch_channel_order[of
      "\<lparr>host_composer = Composer True, postMessage_throws = True, clipboard_fails = True\<rparr>"
      "JStr (js ''gm'')"]
  by (simp add: tryOpenFarcasterComposer_def post_or_later_def clipboard_or_prompt_def)

text \<open>
  C6 as stated fails: with a host composer that is present and throws when called, the
  dispatch calls it and then posts the cross-frame message.
\<close>

theorem throwing_composer_falls_through:
  "tryOpenFarcasterComposer
     \<lparr>host_composer = Composer True, postMessage_throws = False, clipboard_fails = False\<rparr>
     (JStr (js ''gm''))
   = [OpenComposer (JStr (js ''gm'')),
      PostMessage (composer_message (JStr (js ''gm''))) (js ''*'')]"
  by (simp add: tryOpenFarcasterComposer_def post_or_later_def)

subsection \<open>C7: add, delete, reset\<close>

text \<open>
  C7. For every list in the state and every input \<open>q\<close> whose trimmed text \<open>trim q\<close> is
  non-empty, adding \<open>q\<close> puts \<open>trim q\<close> at index 0 in front of the unchanged list, and
  deleting index 0 (confirmed) afterwards gives back the original list. A confirmed reset
  gives exactly the built-in list, which has 24 elements, whatever the list was.
\<close>

theorem add_delete_restores_and_reset_defaults:
  assumes "trim q \<noteq> []"
  shows "quotes (on_event env handleAddQuote (typeNewQuote q s)) = JStr (trim q) # quotes s
       \<and> quotes (on_event env (handleDeleteQuote True 0)
            (on_event env handleAddQuote (typeNewQuote q s))) = quotes s
       \<and> quotes (on_event env (handleResetToDefault env True) s) = DEFAULT_QUOTES
       \<and> length DEFAULT_QUOTES = 24"
  using assms
  by (simp add: quotes_add quotes_delete quotes_reset typeNewQuote_def splice1_0_Cons
        DEFAULT_QUOTES_length)

theorem add_delete_restores_and_reset_defaults_witness:
  "trim (js '' gm '') \<noteq> []
 \<and> quotes (on_event sample_json handleAddQuote
       (typeNewQuote (js '' gm '') (first_render sample_json gm_storage)))
     = [JStr (js ''gm''), JStr (js ''gm'')]
 \<and> quotes (on_event sample_json (handleDeleteQuote True 0)
       (on_event sample_json handleAddQuote
          (typeNewQuote (js '' gm '') (first_render sample_json gm_storage))))
     = [JStr (js ''gm'')]
 \<and> quotes (on_event sample_json (handleResetToDefault sample_json True)
       (first_render sample_json gm_storage)) = DEFAULT_QUOTES"
proof -
  have ne: "trim (js '' gm '') \<noteq> []"
    unfolding trim_gm by (simp add: js_def)
  from ne add_delete_restores_and_reset_defaults[OF ne, of sample_json
      "first_render sample_json gm_storage"]
  show ?thesis
    by (simp add: trim_gm quotes_first_render_gm)
qed

subsection \<open>C8: updating the admin secret\<close>

text \<open>
  C8. An update whose trimmed value has fewer than 4 code units is rejected: the store and
  the in-memory secret are unchanged and the old secret still authenticates. An update
  whose trimmed value \<open>trim v\<close> has at least 4 code units, on a store that accepts the
  write, stores \<open>trim v\<close>; thereafter \<open>trim v\<close> authenticates and the old secret, if it
  differs from \<open>trim v\<close>, does not.
\<close>

theorem secret_update:
  "(length (trim v) < 4 \<longrightarrow>
      localStorage (handleSetPw (typePw v s)) = localStorage s
    \<and> adminPwState (handleSetPw (typePw v s)) = adminPwState s
    \<and> authenticates (getAdminPw (localStorage s)) (handleSetPw (typePw v s)))
 \<and> (4 \<le> length (trim v) \<and> \<not> setItem_throws (localStorage s)
       \<and> trim v \<noteq> getAdminPw (localStorage s) \<longrightarrow>
      getItem (localStorage (handleSetPw (typePw v s))) ADMIN_PW_KEY = Some (trim v)
    \<and> \<not> authenticates (getAdminPw (localStorage s)) (handleSetPw (typePw v s))
    \<and> authenticates (trim v) (handleSetPw (typePw v s)))"
proof -
  let ?s' = "handleSetPw (typePw v s)"
  let ?old = "getAdminPw (localStorage s)"
  have rejected: "localStorage ?s' = localStorage s \<and> adminPwState ?s' = adminPwState s
      \<and> authenticates ?old ?s'" if "length (trim v) < 4"
    using that by (simp add: authenticates_iff handleSetPw_def typePw_def Let_def emit_def)
  have accepted: "getItem (localStorage ?s') ADMIN_PW_KEY = Some (trim v)
      \<and> \<not> authenticates ?old ?s' \<and> authenticates (trim v) ?s'"
    if len: "4 \<le> length (trim v)" and w: "\<not> setItem_throws (localStorage s)"
      and new: "trim v \<noteq> ?old"
  proof -
    from len have ne: "trim v \<noteq> []"
      by auto
    from len have st: "localStorage ?s' = persistAdminPw (trim v) (localStorage s)"
      by (simp add: localStorage_handleSetPw typePw_def)
    have cur: "getAdminPw (localStorage ?s') = trim v"
      unfolding st using w ne by (rule getAdminPw_persist)
    have stored: "getItem (localStorage ?s') ADMIN_PW_KEY = Some (trim v)"
      unfolding st using w by (simp add: persistAdminPw_def setItem_def getItem_def)
    from cur new stored show ?thesis
      by (simp add: authenticates_iff)
  qed
  from rejected accepted show ?thesis
    by blast
qed

theorem secret_update_witness:
  "length (trim (js ''ab'')) < 4
 \<and> authenticates (js ''basedfin'')
      (handleSetPw (typePw (js ''ab'') (first_render sample_json fresh_storage)))
 \<and> 4 \<le> length (trim (js ''abcd''))
 \<and> \<not> authenticates (js ''basedfin'')
      (handleSetPw (typePw (js ''abcd'') (first_render sample_json fresh_storage)))
 \<and> authenticates (js ''abcd'')
      (handleSetPw (typePw (js ''abcd'') (first_render sample_json fresh_storage)))"
proof -
  have st: "localStorage (first_render sample_json fresh_storage) = fresh_storage"
    by (simp add: first_render_def)
  have w: "\<not> setItem_throws fresh_storage"
    by (simp add: fresh_storage_def)
  have d: "js ''abcd'' \<noteq> js ''basedfin''"
    by (simp add: js_def)
  have l2: "length (js ''ab'') = 2" and l4: "length (js ''abcd'') = 4"
    by (simp_all add: js_def)
  from w d
    secret_update[of "js ''ab''" "first_render sample_json fresh_storage"]
    secret_update[of "js ''abcd''" "first_render sample_json fresh_storage"]
  show ?thesis
    by (simp add: st trim_ab trim_abcd l2 l4 getAdminPw_fresh)
qed

subsection \<open>C9: a failed write of the admin secret\<close>

text \<open>
  C9. On a store whose \<open>setItem\<close> throws and that holds no secret, an unlocked admin sets
  the secret \<open>abcd\<close>. The exception is swallowed and the in-memory cell holds \<open>abcd\<close>, but
  the next authentication attempt reads the store: \<open>abcd\<close> does not authenticate and the
  previous secret \<open>basedfin\<close> still does.
\<close>

theorem failed_secret_write_keeps_old_secret:
  "adminPwState (handleSetPw (typePw (js ''abcd'')
      ((first_render env full_storage)\<lparr>adminOpen := True, authStep := Unlocked\<rparr>)))
     = js ''abcd''
 \<and> \<not> authenticates (js ''abcd'') (handleSetPw (typePw (js ''abcd'')
      ((first_render env full_storage)\<lparr>adminOpen := True, authStep := Unlocked\<rparr>)))
 \<and> authenticates (js ''basedfin'') (handleSetPw (typePw (js ''abcd'')
      ((first_render env full_storage)\<lparr>adminOpen := True, authStep := Unlocked\<rparr>)))"
proof -
  have l: "length (js ''abcd'') = 4"
    by (simp add: js_def)
  have d: "js ''abcd'' \<noteq> js ''basedfin''"
    by (simp add: js_def)
  have t: "setItem_throws full_storage"
    by (simp add: full_storage_def)
  have pw: "getAdminPw full_storage = js ''basedfin''"
    by (simp add: getAdminPw_def full_storage_def getItem_def)
  show ?thesis
    using d
    by (simp add: authenticates_iff localStorage_handleSetPw typePw_def trim_abcd l
          first_render_def persistAdminPw_throws[OF t] pw handleSetPw_def Let_def emit_def)
qed

subsection \<open>C10: an empty stored secret\<close>

text \<open>
  C10. \<open>getAdminPw\<close> returns \<open>basedfin\<close> when no secret is stored and also when the stored
  secret is the empty string, and an authentication attempt with any input has the same
  outcome in the two cases.
\<close>

theorem empty_secret_reads_as_default:
  "getAdminPw (st\<lparr>items := (items st)(ADMIN_PW_KEY := None)\<rparr>) = js ''basedfin''
 \<and> getAdminPw (st\<lparr>items := (items st)(ADMIN_PW_KEY \<mapsto> [])\<rparr>) = js ''basedfin''
 \<and> authenticates p (s\<lparr>localStorage := st\<lparr>items := (items st)(ADMIN_PW_KEY \<mapsto> [])\<rparr>\<rparr>)
     = authenticates p (s\<lparr>localStorage := st\<lparr>items := (items st)(ADMIN_PW_KEY := None)\<rparr>\<rparr>)"
  by (simp add: authenticates_iff getAdminPw_def getItem_def)

end
